theory Spec2Isabelle
  imports Main
begin

section \<open>JavaScript strings\<close>

text \<open>
  A JavaScript string is modelled as a \<^typ>\<open>string\<close> whose characters are the code units
  below 256. \<open>String.prototype.trim\<close> and the regular-expression class \<open>\s\<close> use the same
  white-space set; in this range it is TAB, LF, VT, FF, CR, SPACE and NBSP.
  A string is truthy exactly when it is not empty.
\<close>

definition is_space :: "char \<Rightarrow> bool" where
  "is_space c = (c = CHR 0x09 \<or> c = CHR 0x0A \<or> c = CHR 0x0B \<or> c = CHR 0x0C
     \<or> c = CHR 0x0D \<or> c = CHR 0x20 \<or> c = CHR 0xA0)"

definition trim :: "string \<Rightarrow> string" where
  "trim s = rev (dropWhile is_space (rev (dropWhile is_space s)))"

text \<open>
  The email test of \<open>validateForm\<close> is \<open>/^[^\s@]+@[^\s@]+\.[^\s@]+$/.test(email)\<close>.
  \<open>email_char\<close> is the class \<open>[^\s@]\<close>. Since the class excludes \<open>@\<close>, a match has exactly
  one \<open>@\<close>; the part after it has to consist of class characters with a dot that is neither
  its first nor its last character.
\<close>

definition email_char :: "char \<Rightarrow> bool" where
  "email_char c = (\<not> is_space c \<and> c \<noteq> CHR ''@'')"

definition email_domain :: "string \<Rightarrow> bool" where
  "email_domain d = (list_all email_char d \<and> list_ex (\<lambda>c. c = CHR ''.'') (butlast (tl d)))"

definition email_regex :: "string \<Rightarrow> bool" where
  "email_regex s =
     (let a = takeWhile (\<lambda>c. c \<noteq> CHR ''@'') s;
          r = dropWhile (\<lambda>c. c \<noteq> CHR ''@'') s
      in a \<noteq> [] \<and> list_all email_char a \<and> r \<noteq> [] \<and> email_domain (tl r))"

section \<open>Types of the application (types.ts)\<close>

record CountryVote =
  country :: string
  capital :: string
  region :: string
  subRegion :: string
  votes :: nat
  rank :: nat

record VoteSubmission =
  name :: string
  email :: string
  country :: string

text \<open>
  \<open>Partial<VoteSubmission>\<close>, the type of the form's \<open>errors\<close>: an object with at most the
  keys \<open>name\<close>, \<open>email\<close>, \<open>country\<close>, kept as the list of its entries in insertion order.
\<close>

datatype form_field = Name | Email | Country

type_synonym field_errors = "(form_field \<times> string) list"

section \<open>VotingForm: validateForm\<close>

text \<open>\<open>validateForm_errors\<close> is the object \<open>newErrors\<close> that \<open>validateForm\<close> builds from
  \<open>formData\<close> and hands to \<open>setErrors\<close>; \<open>validateForm\<close> is its return value
  \<open>Object.keys(newErrors).length === 0\<close>.\<close>

definition validateForm_errors :: "VoteSubmission \<Rightarrow> field_errors" where
  "validateForm_errors fd =
     (if trim (name fd) = [] then [(Name, ''Name is required'')] else [])
     @ (if trim (email fd) = [] then [(Email, ''Email is required'')]
        else if \<not> email_regex (email fd) then [(Email, ''Invalid email format'')]
        else [])
     @ (if country fd = [] then [(Country, ''Please select a country'')] else [])"

definition validateForm :: "VoteSubmission \<Rightarrow> bool" where
  "validateForm fd = (length (map fst (validateForm_errors fd)) = 0)"

section \<open>The state of the page\<close>

text \<open>
  A value that a promise rejects with: an \<open>Error\<close> object with its message, or anything
  else (\<open>error instanceof Error\<close> is false).
\<close>

datatype js_thrown = Error string | NonError

text \<open>The two ranking requests that \<open>CountryTable\<close> sends through \<open>api\<close>; the search carries
  the query string as it was handed to \<open>api.searchCountries\<close>.\<close>

datatype request = GetTopCountries | SearchCountries string

text \<open>
  One record holds the \<open>useState\<close> cells of \<open>App\<close> (\<open>refreshTrigger\<close>), of \<open>VotingForm\<close>
  (\<open>formData\<close> to \<open>submitSuccess\<close>) and of \<open>CountryTable\<close> (\<open>countries\<close> to \<open>error\<close>), followed
  by what the browser and React keep for them:
  \<^item> \<open>posted\<close>: the bodies handed to \<open>api.submitVote\<close>, in order; \<open>pendingVotes\<close>: how many of
    these calls have not settled yet;
  \<^item> \<open>successTimers\<close>: the pending \<open>setTimeout(() => setSubmitSuccess(false), 3000)\<close> timers,
    each with the milliseconds it still has to run (they are never cleared);
  \<^item> \<open>refreshDep\<close>, \<open>queryDep\<close>: the dependency values \<open>[refreshTrigger]\<close> and \<open>[searchQuery]\<close>
    of the two effects at the last commit, \<open>None\<close> before the first one;
  \<^item> \<open>debounce\<close>: the pending debounce timer of the search effect, with the milliseconds it
    still has to run and the \<open>searchQuery\<close> its callback closed over;
  \<^item> \<open>sent\<close>: the ranking requests issued, in order; \<open>settled\<close>: the positions in \<open>sent\<close> of
    those whose promise has settled.
  The country list of the drop-down (\<open>loadCountries\<close>) takes no part in validation or
  submission and is left out.
\<close>

record app_state =
  refreshTrigger :: nat
  formData :: VoteSubmission
  errors :: field_errors
  isSubmitting :: bool
  submitError :: string
  submitSuccess :: bool
  countries :: "CountryVote list"
  searchQuery :: string
  isLoading :: bool
  error :: string
  posted :: "VoteSubmission list"
  pendingVotes :: nat
  successTimers :: "nat list"
  refreshDep :: "nat option"
  queryDep :: "string option"
  debounce :: "(nat \<times> string) option"
  sent :: "request list"
  settled :: "nat list"

definition emptyForm :: VoteSubmission where
  "emptyForm = \<lparr>name = [], email = [], country = []\<rparr>"

definition initial :: app_state where
  "initial = \<lparr>refreshTrigger = 0, formData = emptyForm, errors = [], isSubmitting = False,
     submitError = [], submitSuccess = False, countries = [], searchQuery = [],
     isLoading = True, error = [], posted = [], pendingVotes = 0, successTimers = [],
     refreshDep = None, queryDep = None, debounce = None, sent = [], settled = []\<rparr>"

section \<open>CountryTable\<close>

text \<open>\<open>loadTopCountries\<close> and \<open>searchCountries\<close> up to their \<open>await\<close>; \<open>searchCountries\<close> reads
  the \<open>searchQuery\<close> of the render that created it, here the argument \<open>q\<close>.\<close>

definition loadTopCountries :: "app_state \<Rightarrow> app_state" where
  "loadTopCountries s = s\<lparr>isLoading := True, error := [], sent := sent s @ [GetTopCountries]\<rparr>"

definition searchCountries :: "string \<Rightarrow> app_state \<Rightarrow> app_state" where
  "searchCountries q s = s\<lparr>isLoading := True, error := [], sent := sent s @ [SearchCountries q]\<rparr>"

text \<open>The rest of the two functions, run when the promise settles (\<open>try\<close>/\<open>catch\<close>/\<open>finally\<close>).\<close>

definition loadTopCountries_settled :: "js_thrown + CountryVote list \<Rightarrow> app_state \<Rightarrow> app_state" where
  "loadTopCountries_settled r s =
     (case r of Inr d \<Rightarrow> s\<lparr>countries := d\<rparr>
              | Inl e \<Rightarrow> s\<lparr>error := ''Failed to load countries''\<rparr>)\<lparr>isLoading := False\<rparr>"

definition searchCountries_settled :: "js_thrown + CountryVote list \<Rightarrow> app_state \<Rightarrow> app_state" where
  "searchCountries_settled r s =
     (case r of Inr d \<Rightarrow> s\<lparr>countries := d\<rparr>
              | Inl e \<Rightarrow> s\<lparr>error := ''Failed to search countries''\<rparr>)\<lparr>isLoading := False\<rparr>"

text \<open>
  The two effects. React runs an effect after a commit when its dependency differs from
  the value at the previous commit, and after the first commit. The search effect's
  cleanup clears the pending timer before the new one is set, so at most one is pending.
  (The second run of every effect that a development build makes under \<open>StrictMode\<close> is
  not part of the model.)
\<close>

definition effect_refresh :: "app_state \<Rightarrow> app_state" where
  "effect_refresh s =
     (if refreshDep s = Some (refreshTrigger s) then s
      else loadTopCountries (s\<lparr>refreshDep := Some (refreshTrigger s)\<rparr>))"

definition effect_debounce :: "app_state \<Rightarrow> app_state" where
  "effect_debounce s =
     (if queryDep s = Some (searchQuery s) then s
      else s\<lparr>queryDep := Some (searchQuery s), debounce := Some (300, searchQuery s)\<rparr>)"

definition commit :: "app_state \<Rightarrow> app_state" where
  "commit s = effect_debounce (effect_refresh s)"

text \<open>The callback of the debounce timer, with the \<open>searchQuery\<close> it closed over.\<close>

definition debounce_fire :: "string \<Rightarrow> app_state \<Rightarrow> app_state" where
  "debounce_fire q s = (if trim q \<noteq> [] then searchCountries q s else loadTopCountries s)"

section \<open>VotingForm: handleSubmit\<close>

text \<open>
  The calls that \<open>handleSubmit\<close> makes, in the order it makes them. \<open>setTimeout n\<close> is
  \<open>setTimeout(() => setSubmitSuccess(false), n)\<close>; \<open>onVoteSubmitted\<close> is the prop, which \<open>App\<close>
  binds to \<open>handleVoteSubmitted\<close>.
\<close>

datatype form_call =
    setSubmitError string
  | setSubmitSuccess bool
  | setErrors field_errors
  | setIsSubmitting bool
  | setFormData VoteSubmission
  | onVoteSubmitted
  | setTimeout nat
  | api_submitVote VoteSubmission

text \<open>\<open>handleSubmit\<close> up to its \<open>await\<close>, on the \<open>formData\<close> of the render.\<close>

definition handleSubmit :: "VoteSubmission \<Rightarrow> form_call list" where
  "handleSubmit fd =
     [setSubmitError [], setSubmitSuccess False, setErrors (validateForm_errors fd)]
     @ (if \<not> validateForm fd then [] else [setIsSubmitting True, api_submitVote fd])"

text \<open>The rest of \<open>handleSubmit\<close>, run when the promise of \<open>api.submitVote\<close> settles.\<close>

definition handleSubmit_settled :: "js_thrown + unit \<Rightarrow> form_call list" where
  "handleSubmit_settled r =
     (case r of
        Inr u \<Rightarrow> [setSubmitSuccess True, setFormData \<lparr>name = [], email = [], country = []\<rparr>,
                  onVoteSubmitted, setTimeout 3000]
      | Inl e \<Rightarrow> [setSubmitError (case e of Error m \<Rightarrow> m | NonError \<Rightarrow> ''Failed to submit vote'')])
     @ [setIsSubmitting False]"

definition handleVoteSubmitted :: "app_state \<Rightarrow> app_state" where
  "handleVoteSubmitted s = s\<lparr>refreshTrigger := refreshTrigger s + 1\<rparr>"

fun exec :: "form_call \<Rightarrow> app_state \<Rightarrow> app_state" where
  "exec (setSubmitError m) s = s\<lparr>submitError := m\<rparr>"
| "exec (setSubmitSuccess b) s = s\<lparr>submitSuccess := b\<rparr>"
| "exec (setErrors es) s = s\<lparr>errors := es\<rparr>"
| "exec (setIsSubmitting b) s = s\<lparr>isSubmitting := b\<rparr>"
| "exec (setFormData fd) s = s\<lparr>formData := fd\<rparr>"
| "exec onVoteSubmitted s = handleVoteSubmitted s"
| "exec (setTimeout n) s = s\<lparr>successTimers := successTimers s @ [n]\<rparr>"
| "exec (api_submitVote fd) s = s\<lparr>posted := posted s @ [fd], pendingVotes := pendingVotes s + 1\<rparr>"

fun execs :: "form_call list \<Rightarrow> app_state \<Rightarrow> app_state" where
  "execs [] s = s"
| "execs (c # cs) s = execs cs (exec c s)"

section \<open>Events\<close>

text \<open>
  Time passing by \<open>d\<close> milliseconds: a timer with at most \<open>d\<close> left fires, the others have
  \<open>d\<close> less to run.
\<close>

definition elapse_debounce :: "nat \<Rightarrow> app_state \<Rightarrow> app_state" where
  "elapse_debounce d s =
     (case debounce s of
        None \<Rightarrow> s
      | Some (r, q) \<Rightarrow>
          if r \<le> d then debounce_fire q (s\<lparr>debounce := None\<rparr>)
          else s\<lparr>debounce := Some (r - d, q)\<rparr>)"

definition elapse_success :: "nat \<Rightarrow> app_state \<Rightarrow> app_state" where
  "elapse_success d s =
     s\<lparr>submitSuccess := (if list_ex (\<lambda>r. r \<le> d) (successTimers s) then False else submitSuccess s),
       successTimers := map (\<lambda>r. r - d) (filter (\<lambda>r. d < r) (successTimers s))\<rparr>"

text \<open>
  What can happen to the mounted page:
  \<^item> \<open>ChangeName\<close>, \<open>ChangeEmail\<close>, \<open>SelectCountry\<close>: the \<open>onChange\<close>/\<open>onValueChange\<close> handlers of
    the form;
  \<^item> \<open>Submit\<close>: the user activates the submit button (a click, or Enter in a field, which
    the browser turns into a click on the form's submit button). The button is rendered
    with \<open>disabled={isSubmitting}\<close>, and a disabled button submits nothing;
  \<^item> \<open>VoteSettled r\<close>: the promise of a pending \<open>api.submitVote\<close> settles with \<open>r\<close>;
  \<^item> \<open>TypeSearch v\<close>: the \<open>onChange\<close> handler of the search box, \<open>setSearchQuery(v)\<close>; setting
    the text it already has changes no dependency and so runs no effect;
  \<^item> \<open>RankingSettled i r\<close>: the promise of the ranking request \<open>sent ! i\<close> settles with \<open>r\<close>;
  \<^item> \<open>Elapse d\<close>: \<open>d\<close> milliseconds pass with nothing else happening.
  React commits after each of them.
\<close>

datatype event =
    ChangeName string
  | ChangeEmail string
  | SelectCountry string
  | Submit
  | VoteSettled "js_thrown + unit"
  | TypeSearch string
  | RankingSettled nat "js_thrown + CountryVote list"
  | Elapse nat

fun step :: "event \<Rightarrow> app_state \<Rightarrow> app_state" where
  "step (ChangeName v) s = commit (s\<lparr>formData := (formData s)\<lparr>name := v\<rparr>\<rparr>)"
| "step (ChangeEmail v) s = commit (s\<lparr>formData := (formData s)\<lparr>email := v\<rparr>\<rparr>)"
| "step (SelectCountry v) s = commit (s\<lparr>formData := (formData s)\<lparr>country := v\<rparr>\<rparr>)"
| "step Submit s =
     (if isSubmitting s then s else commit (execs (handleSubmit (formData s)) s))"
| "step (VoteSettled r) s =
     (if pendingVotes s = 0 then s
      else commit (execs (handleSubmit_settled r) (s\<lparr>pendingVotes := pendingVotes s - 1\<rparr>)))"
| "step (TypeSearch v) s = commit (s\<lparr>searchQuery := v\<rparr>)"
| "step (RankingSettled i r) s =
     (if i < length (sent s) \<and> i \<notin> set (settled s) then
        commit ((case sent s ! i of
                   GetTopCountries \<Rightarrow> loadTopCountries_settled r
                 | SearchCountries q \<Rightarrow> searchCountries_settled r) (s\<lparr>settled := i # settled s\<rparr>))
      else s)"
| "step (Elapse d) s = commit (elapse_success d (elapse_debounce d s))"

fun run :: "event list \<Rightarrow> app_state \<Rightarrow> app_state" where
  "run [] s = s"
| "run (e # es) s = run es (step e s)"

text \<open>The page after its first commit: both effects have run once.\<close>

definition mount :: app_state where
  "mount = commit initial"

section \<open>The API layer\<close>

text \<open>
  \<open>a || b\<close> on a string that may be \<open>undefined\<close>: the left operand when it is truthy (a
  non-empty string), the right one otherwise.
\<close>

definition js_or :: "string option \<Rightarrow> string \<Rightarrow> string" where
  "js_or a b = (case a of None \<Rightarrow> b | Some m \<Rightarrow> if m = [] then b else m)"

subsection \<open>API.config.ts: the axios instance and its response interceptor\<close>

text \<open>
  What axios hands to the interceptor. An \<open>AxiosError<{message; statusCode}>\<close> has
  \<open>response\<close> when the server answered (its \<open>data\<close> may be missing), \<open>request\<close> when the
  request was sent, and its own \<open>message\<close>. A fulfilled call yields the response, whose
  \<open>data\<close> is the parsed body.
\<close>

datatype error_body = ErrorBody (body_message: string) (body_statusCode: nat)

datatype error_response = ErrorResponse (response_data: "error_body option")

record AxiosError =
  response :: "error_response option"
  request :: bool
  message :: string

record 'a AxiosResponse =
  status :: nat
  data :: 'a

datatype 'a axios_settlement = Fulfilled "'a AxiosResponse" | Rejected AxiosError

text \<open>The rejection handler of \<open>API.interceptors.response\<close>; it rejects with \<open>new Error(errorMessage)\<close>.
  The fulfilment handler returns the response unchanged.\<close>

definition response_rejected :: "AxiosError \<Rightarrow> js_thrown" where
  "response_rejected e =
     Error (case response e of
              Some r \<Rightarrow> js_or (map_option body_message (response_data r)) (message e)
            | None \<Rightarrow>
                if request e then ''Unable to connect to the server. Please try again later.''
                else message e)"

definition response_fulfilled :: "'a AxiosResponse \<Rightarrow> 'a AxiosResponse" where
  "response_fulfilled r = r"

text \<open>A call \<open>await API.get(...)\<close> or \<open>await API.post(...)\<close>: the settlement of the request,
  passed through the response interceptor.\<close>

definition API_call :: "'a axios_settlement \<Rightarrow> js_thrown + 'a AxiosResponse" where
  "API_call st = (case st of Fulfilled r \<Rightarrow> Inr (response_fulfilled r)
                           | Rejected e \<Rightarrow> Inl (response_rejected e))"

subsection \<open>The axios-based service\<close>

text \<open>\<open>ApiResponse<T>\<close> of types.ts.\<close>

record 'a ApiResponse =
  data :: 'a
  message :: "string option"

text \<open>
  Each function of the service takes the settlement of the request it makes and gives
  what its promise settles with. The URL and the query parameter only shape the request.
\<close>

definition axios_getCountries :: "'a ApiResponse axios_settlement \<Rightarrow> js_thrown + 'a" where
  "axios_getCountries st =
     (case API_call st of Inl e \<Rightarrow> Inl e
                        | Inr r \<Rightarrow> Inr (ApiResponse.data (AxiosResponse.data r)))"

definition axios_getTopCountries :: "'a ApiResponse axios_settlement \<Rightarrow> js_thrown + 'a" where
  "axios_getTopCountries st =
     (case API_call st of Inl e \<Rightarrow> Inl e
                        | Inr r \<Rightarrow> Inr (ApiResponse.data (AxiosResponse.data r)))"

definition axios_submitVote :: "'a axios_settlement \<Rightarrow> js_thrown + unit" where
  "axios_submitVote st = (case API_call st of Inl e \<Rightarrow> Inl e | Inr r \<Rightarrow> Inr ())"

definition axios_searchCountries :: "string \<Rightarrow> 'a ApiResponse axios_settlement \<Rightarrow> js_thrown + 'a" where
  "axios_searchCountries query st =
     (case API_call st of Inl e \<Rightarrow> Inl e
                        | Inr r \<Rightarrow> Inr (ApiResponse.data (AxiosResponse.data r)))"

subsection \<open>service.ts: the fetch-based service\<close>

text \<open>
  \<open>fetch\<close> fulfils with a \<open>Response\<close> whenever the server answered, whatever the status;
  \<open>ok\<close> is its flag and \<open>json\<close> what \<open>await response.json()\<close> gives: the parsed body, or a
  thrown value when the body does not parse. \<open>fetch\<close> rejects when no answer came.
  Of the body of a failed POST only the \<open>message\<close> field is read.
\<close>

record 'a FetchResponse =
  ok :: bool
  json :: "js_thrown + 'a"

datatype 'a fetch_settlement = FetchFulfilled "'a FetchResponse" | FetchRejected js_thrown

datatype error_json = ErrorJson (json_message: "string option")

definition fetch_getCountries :: "'a ApiResponse fetch_settlement \<Rightarrow> js_thrown + 'a" where
  "fetch_getCountries st =
     (case st of
        FetchRejected e \<Rightarrow> Inl e
      | FetchFulfilled r \<Rightarrow>
          if \<not> ok r then Inl (Error ''Failed to fetch countries'')
          else (case json r of Inl e \<Rightarrow> Inl e | Inr d \<Rightarrow> Inr (ApiResponse.data d)))"

definition fetch_getTopCountries :: "'a ApiResponse fetch_settlement \<Rightarrow> js_thrown + 'a" where
  "fetch_getTopCountries st =
     (case st of
        FetchRejected e \<Rightarrow> Inl e
      | FetchFulfilled r \<Rightarrow>
          if \<not> ok r then Inl (Error ''Failed to fetch top countries'')
          else (case json r of Inl e \<Rightarrow> Inl e | Inr d \<Rightarrow> Inr (ApiResponse.data d)))"

definition fetch_submitVote :: "error_json fetch_settlement \<Rightarrow> js_thrown + unit" where
  "fetch_submitVote st =
     (case st of
        FetchRejected e \<Rightarrow> Inl e
      | FetchFulfilled r \<Rightarrow>
          if \<not> ok r then
            (case json r of
               Inl e \<Rightarrow> Inl e
             | Inr err \<Rightarrow> Inl (Error (js_or (json_message err) ''Failed to submit vote'')))
          else Inr ())"

definition fetch_searchCountries :: "string \<Rightarrow> 'a ApiResponse fetch_settlement \<Rightarrow> js_thrown + 'a" where
  "fetch_searchCountries query st =
     (case st of
        FetchRejected e \<Rightarrow> Inl e
      | FetchFulfilled r \<Rightarrow>
          if \<not> ok r then Inl (Error ''Failed to search countries'')
          else (case json r of Inl e \<Rightarrow> Inl e | Inr d \<Rightarrow> Inr (ApiResponse.data d)))"


section \<open>Notions used in the properties\<close>

text \<open>A state as React leaves it after a commit: both effects have seen the current
  dependency values.\<close>

definition committed :: "app_state \<Rightarrow> bool" where
  "committed s = (refreshDep s = Some (refreshTrigger s) \<and> queryDep s = Some (searchQuery s))"

text \<open>The submitting flag counts the pending calls of \<open>api.submitVote\<close>.\<close>

definition one_vote :: "app_state \<Rightarrow> bool" where
  "one_vote s = (pendingVotes s = (if isSubmitting s then 1 else 0))"





text \<open>The message the server supplied with an error response, when there is one (a
  missing body or an empty message is none).\<close>

definition server_message :: "AxiosError \<Rightarrow> string option" where
  "server_message e =
     (case response e of
        None \<Rightarrow> None
      | Some r \<Rightarrow>
          (case response_data r of
             None \<Rightarrow> None
           | Some b \<Rightarrow> if body_message b = [] then None else Some (body_message b)))"

text \<open>Two ranking entries and a run in which the response to the earlier request arrives
  last: the mount issues the top-rankings request (position 0), the search for \<open>fr\<close> is
  issued 300 ms after the keystroke (position 1), the search result arrives, then the
  top rankings.\<close>

definition france :: CountryVote where
  "france = \<lparr>CountryVote.country = ''France'', capital = ''Paris'', region = ''Europe'',
     subRegion = ''Western Europe'', votes = 3, rank = 1\<rparr>"

definition brazil :: CountryVote where
  "brazil = \<lparr>CountryVote.country = ''Brazil'', capital = ''Brasilia'', region = ''Americas'',
     subRegion = ''South America'', votes = 9, rank = 1\<rparr>"

definition stale_scenario :: "event list" where
  "stale_scenario = [TypeSearch ''fr'', Elapse 300,
     RankingSettled 1 (Inr [france]), RankingSettled 0 (Inr [brazil])]"

text \<open>A run that leaves a vote pending while a search for \<open>fra\<close> is shown.\<close>

definition vote_al :: "event list" where
  "vote_al = [TypeSearch ''fra'', Elapse 300, ChangeName ''Al'', ChangeEmail ''a@b.co'',
     SelectCountry ''FRA'', Submit]"

lemmas model_defs = validateForm_def validateForm_errors_def trim_def is_space_def
  email_regex_def email_domain_def email_char_def  handleSubmit_def handleSubmit_settled_def
  handleVoteSubmitted_def loadTopCountries_def searchCountries_def loadTopCountries_settled_def
  searchCountries_settled_def effect_refresh_def effect_debounce_def commit_def debounce_fire_def
  elapse_debounce_def elapse_success_def mount_def initial_def emptyForm_def

lemmas api_defs = js_or_def response_rejected_def response_fulfilled_def API_call_def
  axios_getCountries_def axios_getTopCountries_def axios_submitVote_def axios_searchCountries_def
  fetch_getCountries_def fetch_getTopCountries_def fetch_submitVote_def fetch_searchCountries_def

section \<open>Commits and runs\<close>


text \<open>A commit touches only the table's loading state, its requests and its timer.\<close>

lemma commit_form [simp]:
  "isSubmitting (commit s) = isSubmitting s" "pendingVotes (commit s) = pendingVotes s"
  "posted (commit s) = posted s" "formData (commit s) = formData s"
  "submitError (commit s) = submitError s" "submitSuccess (commit s) = submitSuccess s"
  "successTimers (commit s) = successTimers s" "refreshTrigger (commit s) = refreshTrigger s"
  "errors (commit s) = errors s"
  by (simp_all add: commit_def effect_refresh_def effect_debounce_def loadTopCountries_def)

lemma commit_table [simp]:
  "countries (commit s) = countries s" "settled (commit s) = settled s"
  "searchQuery (commit s) = searchQuery s"
  by (simp_all add: commit_def effect_refresh_def effect_debounce_def loadTopCountries_def)

lemma commit_committed: "committed (commit s)"
  by (simp add: committed_def commit_def effect_refresh_def effect_debounce_def loadTopCountries_def)

lemma commit_id: "committed s \<Longrightarrow> commit s = s"
  by (simp add: committed_def commit_def effect_refresh_def effect_debounce_def)

lemma step_committed: "committed s \<Longrightarrow> committed (step e s)"
  by (cases e) (simp_all add: commit_committed)

lemma run_committed: "committed s \<Longrightarrow> committed (run es s)"
  by (induction es arbitrary: s) (simp_all add: step_committed)

lemma mount_committed: "committed mount"
  by (simp add: mount_def commit_committed)

text \<open>Every state the mounted page can reach has exactly one pending vote while
  \<open>isSubmitting\<close> is set and none otherwise.\<close>

lemma step_one_vote: "one_vote s \<Longrightarrow> one_vote (step e s)"
  by (cases e)
     (simp_all add: one_vote_def handleSubmit_def handleSubmit_settled_def handleVoteSubmitted_def
        elapse_success_def elapse_debounce_def debounce_fire_def loadTopCountries_def
        searchCountries_def loadTopCountries_settled_def searchCountries_settled_def
        split: sum.splits option.splits request.splits js_thrown.splits)

lemma run_one_vote: "one_vote s \<Longrightarrow> one_vote (run es s)"
  by (induction es arbitrary: s) (simp_all add: step_one_vote)

lemma mount_one_vote: "one_vote mount"
  by (simp add: mount_def one_vote_def initial_def)

section \<open>The ranking table\<close>

subsection \<open>Mount\<close>


subsection \<open>Responses that arrive out of order\<close>

lemma settle_ok_countries:
  "i < length (sent s) \<Longrightarrow> i \<notin> set (settled s) \<Longrightarrow>
   countries (step (RankingSettled i (Inr d)) s) = d"
  by (simp add: loadTopCountries_settled_def searchCountries_settled_def split: request.splits)

lemma settle_keeps_pending:
  "i < length (sent s) \<Longrightarrow> i \<notin> set (settled s) \<Longrightarrow> i \<noteq> j \<Longrightarrow>
   i < length (sent (step (RankingSettled j r) s))
   \<and> i \<notin> set (settled (step (RankingSettled j r) s))"
  by (auto simp add: loadTopCountries_settled_def searchCountries_settled_def commit_def
      effect_refresh_def effect_debounce_def loadTopCountries_def split: request.splits sum.splits)

text \<open>
  Claim C1, as the code has it. The table tags no request and discards no completion:
  every successful response replaces \<open>countries\<close>. With request \<open>i\<close> issued before request
  \<open>j\<close> and both pending, when the response to \<open>j\<close> arrives first and the response to \<open>i\<close>
  after it, the entries shown are the result of \<open>i\<close>, the last response to arrive.
\<close>

theorem last_response_wins:
  assumes "i < j" "j < length (sent s)" "i \<notin> set (settled s)" "j \<notin> set (settled s)"
  shows "countries (run [RankingSettled j (Inr d2), RankingSettled i (Inr d1)] s) = d1"
proof -
  let ?t = "step (RankingSettled j (Inr d2)) s"
  from assms have "i < length (sent s)" "i \<noteq> j" by simp_all
  with assms(3) have "i < length (sent ?t) \<and> i \<notin> set (settled ?t)"
    using settle_keeps_pending [of i s j] by blast
  then have "countries (step (RankingSettled i (Inr d1)) ?t) = d1"
    using settle_ok_countries [of i ?t d1] by blast
  then show ?thesis by simp
qed

theorem last_response_wins_witness:
  "countries (run [RankingSettled 1 (Inr [france]), RankingSettled 0 (Inr [brazil])]
      (run [TypeSearch ''fr'', Elapse 300] mount)) = [brazil]"
proof -
  let ?s = "run [TypeSearch ''fr'', Elapse 300] mount"
  have "(0::nat) < 1" "1 < length (sent ?s)" "0 \<notin> set (settled ?s)" "1 \<notin> set (settled ?s)"
    by (simp_all add: model_defs)
  then show ?thesis by (rule last_response_wins)
qed

text \<open>
  Claim C1, as stated, fails. In \<open>stale_scenario\<close> the search for \<open>fr\<close> is the request issued
  last and its result is \<open>[france]\<close>; the response to the older top-rankings request arrives
  after it, and the entries end as \<open>[brazil]\<close>.
\<close>

theorem stale_discard_counterexample:
  "sent (run stale_scenario mount) = [GetTopCountries, SearchCountries ''fr'']
   \<and> countries (run stale_scenario mount) = [brazil]
   \<and> countries (run stale_scenario mount) \<noteq> [france]"
  by (simp add: stale_scenario_def model_defs france_def brazil_def)

subsection \<open>Debounced search\<close>







section \<open>Validation\<close>

text \<open>The email test accepts exactly the strings \<open>a@b.c\<close> with \<open>a\<close>, \<open>b\<close>, \<open>c\<close> non-empty
  and made of characters of the class \<open>[^\s@]\<close>, which is what the regular expression says.\<close>

lemma email_char_dot: "email_char CHR ''.''"
  by (simp add: email_char_def is_space_def)

lemma email_domain_iff:
  "email_domain d \<longleftrightarrow>
     (\<exists>b c. d = b @ CHR ''.'' # c \<and> b \<noteq> [] \<and> c \<noteq> []
        \<and> list_all email_char b \<and> list_all email_char c)"
proof
  assume "email_domain d"
  then have all: "list_all email_char d" and "CHR ''.'' \<in> set (butlast (tl d))"
    by (simp_all add: email_domain_def list_ex_iff)
  then obtain x y where xy: "butlast (tl d) = x @ CHR ''.'' # y"
    by (auto simp: in_set_conv_decomp)
  then have "tl d \<noteq> []" by auto
  then have d: "d = hd d # tl d" "tl d = butlast (tl d) @ [last (tl d)]" by (cases d; simp)+
  then have "d = (hd d # x) @ CHR ''.'' # (y @ [last (tl d)])" using xy
    by (metis append_Cons append_assoc)
  moreover from this all have "list_all email_char (hd d # x)" "list_all email_char (y @ [last (tl d)])"
    by (metis list_all_append list.pred_inject(2))+
  ultimately show "\<exists>b c. d = b @ CHR ''.'' # c \<and> b \<noteq> [] \<and> c \<noteq> []
        \<and> list_all email_char b \<and> list_all email_char c"
    by blast
next
  assume "\<exists>b c. d = b @ CHR ''.'' # c \<and> b \<noteq> [] \<and> c \<noteq> []
        \<and> list_all email_char b \<and> list_all email_char c"
  then obtain b c where d: "d = b @ CHR ''.'' # c" and ne: "b \<noteq> []" "c \<noteq> []"
    and all: "list_all email_char b" "list_all email_char c" by blast
  from ne d have "butlast (tl d) = tl b @ CHR ''.'' # butlast c"
    by (cases b) (simp_all add: butlast_append)
  with d all show "email_domain d"
    by (simp add: email_domain_def email_char_dot list_ex_iff)
qed

lemma email_regex_iff:
  "email_regex s \<longleftrightarrow>
     (\<exists>a b c. s = a @ CHR ''@'' # b @ CHR ''.'' # c \<and> a \<noteq> [] \<and> b \<noteq> [] \<and> c \<noteq> []
        \<and> list_all email_char a \<and> list_all email_char b \<and> list_all email_char c)"
proof
  assume r: "email_regex s"
  let ?a = "takeWhile (\<lambda>c. c \<noteq> CHR ''@'') s"
  let ?r = "dropWhile (\<lambda>c. c \<noteq> CHR ''@'') s"
  from r have a: "?a \<noteq> []" "list_all email_char ?a" and rr: "?r \<noteq> []" and dom: "email_domain (tl ?r)"
    by (simp_all add: email_regex_def Let_def)
  from rr have "hd ?r = CHR ''@''" using hd_dropWhile [of "\<lambda>c. c \<noteq> CHR ''@''" s] by simp
  with rr have "?r = CHR ''@'' # tl ?r" by (cases ?r) simp_all
  then have s: "s = ?a @ CHR ''@'' # tl ?r" by (metis takeWhile_dropWhile_id)
  from dom obtain b c where "tl ?r = b @ CHR ''.'' # c" "b \<noteq> []" "c \<noteq> []"
    "list_all email_char b" "list_all email_char c"
    unfolding email_domain_iff by blast
  with s a show "\<exists>a b c. s = a @ CHR ''@'' # b @ CHR ''.'' # c \<and> a \<noteq> [] \<and> b \<noteq> [] \<and> c \<noteq> []
        \<and> list_all email_char a \<and> list_all email_char b \<and> list_all email_char c"
    by metis
next
  assume "\<exists>a b c. s = a @ CHR ''@'' # b @ CHR ''.'' # c \<and> a \<noteq> [] \<and> b \<noteq> [] \<and> c \<noteq> []
        \<and> list_all email_char a \<and> list_all email_char b \<and> list_all email_char c"
  then obtain a b c where s: "s = a @ CHR ''@'' # b @ CHR ''.'' # c" and ne: "a \<noteq> []" "b \<noteq> []" "c \<noteq> []"
    and all: "list_all email_char a" "list_all email_char b" "list_all email_char c" by blast
  from all(1) have na: "\<forall>x\<in>set a. x \<noteq> CHR ''@''" by (auto simp: list_all_iff email_char_def)
  then have t: "takeWhile (\<lambda>c. c \<noteq> CHR ''@'') s = a" "dropWhile (\<lambda>c. c \<noteq> CHR ''@'') s = CHR ''@'' # b @ CHR ''.'' # c"
    unfolding s by simp_all
  have "email_domain (b @ CHR ''.'' # c)" unfolding email_domain_iff using ne all by blast
  with t ne all show "email_regex s" by (simp add: email_regex_def)
qed

text \<open>The only rule \<open>validateForm\<close> has for the name: it is required.\<close>

lemma name_error_iff:
  "(Name, m) \<in> set (validateForm_errors fd) \<longleftrightarrow> trim (name fd) = [] \<and> m = ''Name is required''"
  by (auto simp add: validateForm_errors_def)

text \<open>A valid form is posted as it stands; an invalid one is not posted.\<close>

lemma submit_posts_form_data:
  "\<not> isSubmitting s \<Longrightarrow> validateForm (formData s) \<Longrightarrow>
   posted (step Submit s) = posted s @ [formData s]"
  by (simp add: handleSubmit_def)

lemma submit_invalid_posts_nothing:
  "\<not> validateForm (formData s) \<Longrightarrow> posted (step Submit s) = posted s"
  by (simp add: handleSubmit_def)

lemma dropWhile_replicate: "\<not> P x \<Longrightarrow> dropWhile P (replicate n x) = replicate n x"
  by (cases n) simp_all

lemma trim_replicate: "\<not> is_space x \<Longrightarrow> trim (replicate n x) = replicate n x"
  by (simp add: trim_def dropWhile_replicate)

text \<open>
  Claim C2, evaluated on the code. The name \<open>A\<close> has trimmed length 1 and a name of 101
  letters has trimmed length 101; with a well-formed email and a country chosen,
  \<open>validateForm\<close> reports no error for either, where the claim expects one error keyed
  \<open>name\<close>, and the form with the name \<open>A\<close> is posted.
\<close>

theorem short_and_long_names_pass:
  "length (trim ''A'') = 1
   \<and> validateForm_errors \<lparr>name = ''A'', email = ''a@b.co'', country = ''FRA''\<rparr> = []
   \<and> posted (run [ChangeName ''A'', ChangeEmail ''a@b.co'', SelectCountry ''FRA'', Submit] mount)
       = [\<lparr>name = ''A'', email = ''a@b.co'', country = ''FRA''\<rparr>]
   \<and> length (trim (replicate 101 CHR ''x'')) = 101
   \<and> validateForm_errors \<lparr>name = replicate 101 CHR ''x'', email = ''a@b.co'', country = ''FRA''\<rparr> = []"
proof -
  have x: "\<not> is_space CHR ''x''" by (simp add: is_space_def)
  have e: "trim ''a@b.co'' \<noteq> []" "email_regex ''a@b.co''" "trim ''A'' = ''A''"
    by (simp_all add: trim_def is_space_def email_regex_def email_domain_def email_char_def)
  have p: "posted (run [ChangeName ''A'', ChangeEmail ''a@b.co'', SelectCountry ''FRA'', Submit] mount)
       = [\<lparr>name = ''A'', email = ''a@b.co'', country = ''FRA''\<rparr>]"
    by (simp add: model_defs)
  have "length (trim ''A'') = 1"
    "validateForm_errors \<lparr>name = ''A'', email = ''a@b.co'', country = ''FRA''\<rparr> = []"
    "length (trim (replicate 101 CHR ''x'')) = 101"
    "validateForm_errors \<lparr>name = replicate 101 CHR ''x'', email = ''a@b.co'', country = ''FRA''\<rparr> = []"
    by (simp_all add: validateForm_errors_def trim_replicate [OF x] e)
  with p show ?thesis by blast
qed

text \<open>
  Claim C8, evaluated on the code. The form with name \<open>" Al "\<close> and email \<open>A@B.CO\<close> passes
  \<open>validateForm\<close>, and the body handed to \<open>api.submitVote\<close> is the form data as typed: the
  name keeps its blanks and the email its capitals.
\<close>

theorem raw_form_data_is_posted:
  "validateForm_errors \<lparr>name = '' Al '', email = ''A@B.CO'', country = ''FRA''\<rparr> = []
   \<and> posted (run [ChangeName '' Al '', ChangeEmail ''A@B.CO'', SelectCountry ''FRA'', Submit] mount)
       = [\<lparr>name = '' Al '', email = ''A@B.CO'', country = ''FRA''\<rparr>]"
  by (simp add: model_defs)

section \<open>Submitting a vote\<close>

lemma vote_al_state:
  "pendingVotes (run vote_al mount) = 1"
  "isSubmitting (run vote_al mount)"
  "refreshTrigger (run vote_al mount) = 0"
  "searchQuery (run vote_al mount) = ''fra''"
  "sent (run vote_al mount) = [GetTopCountries, SearchCountries ''fra'']"
  "posted (run vote_al mount) = [\<lparr>name = ''Al'', email = ''a@b.co'', country = ''FRA''\<rparr>]"
  "formData (run vote_al mount) = \<lparr>name = ''Al'', email = ''a@b.co'', country = ''FRA''\<rparr>"
  "successTimers (run vote_al mount) = []"
  by (simp_all add: vote_al_def model_defs)

lemma elapse_debounce_form [simp]:
  "submitSuccess (elapse_debounce d s) = submitSuccess s"
  "successTimers (elapse_debounce d s) = successTimers s"
  by (simp_all add: elapse_debounce_def debounce_fire_def loadTopCountries_def
      searchCountries_def split: option.splits)

text \<open>
  Claim C4. In every state the mounted page can reach with a vote pending, whatever the
  search text, the success of the vote raises \<open>refreshTrigger\<close> by one, makes the table
  issue exactly one more request, the top-rankings fetch, and clears the form fields.
\<close>

theorem vote_success_refreshes:
  assumes "s = run es mount" "0 < pendingVotes s"
  shows "refreshTrigger (step (VoteSettled (Inr ())) s) = refreshTrigger s + 1
    \<and> sent (step (VoteSettled (Inr ())) s) = sent s @ [GetTopCountries]
    \<and> formData (step (VoteSettled (Inr ())) s) = \<lparr>name = [], email = [], country = []\<rparr>"
proof -
  from assms(1) have "committed s" by (simp add: run_committed mount_committed)
  with assms(2) show ?thesis
    by (simp add: committed_def handleSubmit_settled_def handleVoteSubmitted_def commit_def
        effect_refresh_def effect_debounce_def loadTopCountries_def)
qed

theorem vote_success_refreshes_witness:
  "searchQuery (run vote_al mount) = ''fra''
   \<and> refreshTrigger (step (VoteSettled (Inr ())) (run vote_al mount)) = 1
   \<and> sent (step (VoteSettled (Inr ())) (run vote_al mount))
       = [GetTopCountries, SearchCountries ''fra'', GetTopCountries]
   \<and> formData (step (VoteSettled (Inr ())) (run vote_al mount))
       = \<lparr>name = [], email = [], country = []\<rparr>"
  using vote_success_refreshes [OF refl, of vote_al] by (simp add: vote_al_state)

text \<open>
  Claim C7. In every state the mounted page can reach with \<open>isSubmitting\<close> set, exactly one
  vote is pending and a submit action changes nothing: the button is disabled, no
  second request is posted. Every event other than the settlement of the pending vote
  leaves the page submitting, with the same votes posted.
\<close>

theorem submit_ignored_while_submitting:
  assumes "s = run es mount" "isSubmitting s"
  shows "step Submit s = s \<and> pendingVotes s = 1
    \<and> (\<forall>e. (\<forall>r. e \<noteq> VoteSettled r) \<longrightarrow>
          isSubmitting (step e s) \<and> posted (step e s) = posted s \<and> pendingVotes (step e s) = 1)"
proof -
  from assms(1) have "one_vote s" by (simp add: run_one_vote mount_one_vote)
  with assms(2) have p: "pendingVotes s = 1" by (simp add: one_vote_def)
  have "isSubmitting (step e s) \<and> posted (step e s) = posted s \<and> pendingVotes (step e s) = 1"
    if "\<forall>r. e \<noteq> VoteSettled r" for e
    using that assms(2) p
    by (cases e)
       (simp_all add: elapse_success_def elapse_debounce_def debounce_fire_def loadTopCountries_def
          searchCountries_def loadTopCountries_settled_def searchCountries_settled_def
          split: sum.splits option.splits request.splits)
  with assms(2) p show ?thesis by simp
qed

theorem submit_ignored_while_submitting_witness:
  "isSubmitting (run vote_al mount)
   \<and> step Submit (run vote_al mount) = run vote_al mount
   \<and> posted (step Submit (run vote_al mount)) = [\<lparr>name = ''Al'', email = ''a@b.co'', country = ''FRA''\<rparr>]
   \<and> pendingVotes (run vote_al mount) = 1"
  using submit_ignored_while_submitting [OF refl, of vote_al] by (simp add: vote_al_state)




text \<open>
  The axios-based service with the interceptor of API.config.ts. When a vote is pending
  and its request fails there, the message shown is the server's message when the
  response carries a non-empty one; otherwise the fixed connection-failure message when
  the request was sent and no response came; otherwise the error's own text. The form
  fields stay as they are.
\<close>

lemma axios_submit_failure_message:
  assumes "0 < pendingVotes s"
  shows "formData (step (VoteSettled (axios_submitVote (Rejected e))) s) = formData s
    \<and> posted (step (VoteSettled (axios_submitVote (Rejected e))) s) = posted s
    \<and> refreshTrigger (step (VoteSettled (axios_submitVote (Rejected e))) s) = refreshTrigger s
    \<and> submitSuccess (step (VoteSettled (axios_submitVote (Rejected e))) s) = submitSuccess s
    \<and> \<not> isSubmitting (step (VoteSettled (axios_submitVote (Rejected e))) s)
    \<and> submitError (step (VoteSettled (axios_submitVote (Rejected e))) s)
        = (case server_message e of
             Some m \<Rightarrow> m
           | None \<Rightarrow>
               if response e = None \<and> request e
               then ''Unable to connect to the server. Please try again later.''
               else AxiosError.message e)"
  using assms
  by (simp add: handleSubmit_settled_def api_defs server_message_def
      split: option.splits)

text \<open>
  The fetch-based service of service.ts, which is what \<open>VotingForm\<close> imports as
  \<open>../api/service\<close>. A failed request settles \<open>submitVote\<close> with: the value \<open>fetch\<close> rejected
  with when no response came; the value \<open>response.json()\<close> threw when the body of a response
  that is not \<open>ok\<close> does not parse; and otherwise an \<open>Error\<close> with the server's message, or
  with \<open>Failed to submit vote\<close> when the body has no message or an empty one.
\<close>

lemma fetch_submitVote_failure:
  "fetch_submitVote (FetchRejected t) = Inl t"
  "fetch_submitVote (FetchFulfilled \<lparr>ok = False, json = Inl t\<rparr>) = Inl t"
  "fetch_submitVote (FetchFulfilled \<lparr>ok = False, json = Inr (ErrorJson m)\<rparr>)
     = Inl (Error (js_or m ''Failed to submit vote''))"
  by (simp_all add: fetch_submitVote_def)

text \<open>What \<open>handleSubmit\<close> does with a rejection, whichever service it came from: the form
  fields stay, nothing is posted or notified, \<open>isSubmitting\<close> is reset, and the message shown
  is the message of the \<open>Error\<close>, or \<open>Failed to submit vote\<close> for any other thrown value.\<close>

lemma submit_rejected:
  assumes "0 < pendingVotes s"
  shows "formData (step (VoteSettled (Inl t)) s) = formData s
    \<and> posted (step (VoteSettled (Inl t)) s) = posted s
    \<and> refreshTrigger (step (VoteSettled (Inl t)) s) = refreshTrigger s
    \<and> submitSuccess (step (VoteSettled (Inl t)) s) = submitSuccess s
    \<and> \<not> isSubmitting (step (VoteSettled (Inl t)) s)
    \<and> submitError (step (VoteSettled (Inl t)) s)
        = (case t of Error m \<Rightarrow> m | NonError \<Rightarrow> ''Failed to submit vote'')"
  using assms by (simp add: handleSubmit_settled_def)

lemma fetch_transport_failure:
  "0 < pendingVotes s \<Longrightarrow>
   submitError (step (VoteSettled (fetch_submitVote (FetchRejected (Error m)))) s) = m"
  by (simp add: handleSubmit_settled_def fetch_submitVote_def)

text \<open>
  Claim C6, evaluated on the code. The form submits through the fetch-based service.
  With the vote of \<open>vote_al\<close> pending:
  \<^item> the server cannot be reached and \<open>fetch\<close> rejects with its \<open>Failed to fetch\<close> error: the
    message shown is that raw text, where the claim expects a generic transport-failure
    message (the interceptor's \<open>Unable to connect to the server. Please try again later.\<close>
    on the axios path);
  \<^item> the server answers with a status that is not \<open>ok\<close> and a body without a message: the
    message shown is the fixed \<open>Failed to submit vote\<close>, where the claim expects the raw
    error text;
  \<^item> the server answers with a message: that message is shown, as the claim says.
  In each case the form fields are left as they were, as the claim says.
\<close>

theorem fetch_submit_failure_messages:
  "submitError (step (VoteSettled (fetch_submitVote (FetchRejected (Error ''Failed to fetch''))))
      (run vote_al mount)) = ''Failed to fetch''
   \<and> submitError (step (VoteSettled (fetch_submitVote
        (FetchFulfilled \<lparr>ok = False, json = Inr (ErrorJson None)\<rparr>))) (run vote_al mount))
       = ''Failed to submit vote''
   \<and> submitError (step (VoteSettled (fetch_submitVote
        (FetchFulfilled \<lparr>ok = False, json = Inr (ErrorJson (Some ''Email already voted''))\<rparr>)))
        (run vote_al mount)) = ''Email already voted''
   \<and> formData (step (VoteSettled (fetch_submitVote (FetchRejected (Error ''Failed to fetch''))))
      (run vote_al mount)) = \<lparr>name = ''Al'', email = ''a@b.co'', country = ''FRA''\<rparr>
   \<and> formData (step (VoteSettled (fetch_submitVote
        (FetchFulfilled \<lparr>ok = False, json = Inr (ErrorJson None)\<rparr>))) (run vote_al mount))
       = \<lparr>name = ''Al'', email = ''a@b.co'', country = ''FRA''\<rparr>"
proof -
  have h: "0 < pendingVotes (run vote_al mount)" by (simp add: vote_al_state)
  have f: "formData (run vote_al mount) = \<lparr>name = ''Al'', email = ''a@b.co'', country = ''FRA''\<rparr>"
    by (simp add: vote_al_state)
  have o: "js_or None ''Failed to submit vote'' = ''Failed to submit vote''"
    "js_or (Some ''Email already voted'') ''Failed to submit vote'' = ''Email already voted''"
    by (simp_all add: js_or_def)
  have 1: "submitError (step (VoteSettled (Inl (Error m))) (run vote_al mount)) = m"
    "formData (step (VoteSettled (Inl (Error m))) (run vote_al mount))
       = \<lparr>name = ''Al'', email = ''a@b.co'', country = ''FRA''\<rparr>" for m
    using submit_rejected [OF h, of "Error m"] f by simp_all
  show ?thesis
    by (simp only: fetch_submitVote_failure o 1 simp_thms)
qed

section \<open>The two services\<close>

text \<open>
  Claim C10. On a successful response the fetch-based and the axios-based service
  agree: for a body \<open>b\<close> (the parsed JSON of an \<open>ok\<close> response for \<open>fetch\<close>, the \<open>data\<close> of the
  fulfilled response for axios), \<open>getCountries\<close>, \<open>getTopCountries\<close> and \<open>searchCountries\<close>
  return the \<open>data\<close> field of \<open>b\<close>, and \<open>submitVote\<close> returns no value.
\<close>

theorem services_agree_on_success:
  "fetch_getCountries (FetchFulfilled \<lparr>ok = True, json = Inr b\<rparr>) = Inr (ApiResponse.data b)
   \<and> axios_getCountries (Fulfilled \<lparr>status = n, data = b\<rparr>) = Inr (ApiResponse.data b)
   \<and> fetch_getTopCountries (FetchFulfilled \<lparr>ok = True, json = Inr b\<rparr>) = Inr (ApiResponse.data b)
   \<and> axios_getTopCountries (Fulfilled \<lparr>status = n, data = b\<rparr>) = Inr (ApiResponse.data b)
   \<and> fetch_searchCountries q (FetchFulfilled \<lparr>ok = True, json = Inr b\<rparr>) = Inr (ApiResponse.data b)
   \<and> axios_searchCountries q (Fulfilled \<lparr>status = n, data = b\<rparr>) = Inr (ApiResponse.data b)
   \<and> fetch_submitVote (FetchFulfilled \<lparr>ok = True, json = j\<rparr>) = Inr ()
   \<and> axios_submitVote (Fulfilled r) = Inr ()"
  by (simp add: api_defs)



end
